theory Spec2Isabelle
  imports Complex_Main
begin

section \<open>Values and errors\<close>

text \<open>
  Prices, averages and money are Python floats. They are modelled as exact reals, so
  rounding is outside the model. A pandas entry that is NaN (``not yet computable'') is
  \<open>None\<close> in a \<open>real option\<close>. An exception is a value of \<open>error\<close>
  on the left of a sum. In \<open>_calculate_max_drawdown\<close> and
  \<open>_calculate_metrics\<close> a divisor that is zero gives \<open>ZeroDivisionError\<close>.
  In the simulation the operands are numpy floats read from the frame: there a division by
  zero raises nothing, its result is inf or nan, and the code goes on with that value.
  \<open>NonFinite\<close> marks this; it is not an exception but the point where a run leaves
  the real numbers, beyond which the model does not follow it.
\<close>

datatype error =
  TypeError | KeyError | ValueError | IndexError | ZeroDivisionError | NonFinite

datatype signal = BUY | SELL

section \<open>indicators.py\<close>

text \<open>
  \<open>Series.rolling(window).mean()\<close> of pandas, with its default
  \<open>min_periods = window\<close>: the entry at index \<open>i\<close> is NaN until
  \<open>window\<close> observations are available, and the mean of the \<open>window\<close>
  entries ending at \<open>i\<close> afterwards. A window of 0 leaves every entry NaN; a negative
  window is refused by pandas with ValueError (see \<open>calculate_moving_average\<close>).
\<close>

definition rolling_mean :: "nat \<Rightarrow> real list \<Rightarrow> real option list" where
  "rolling_mean w xs =
     map (\<lambda>i. if w = 0 \<or> i + 1 < w then None
              else Some (sum_list (take w (drop (i + 1 - w) xs)) / real w))
         [0..<length xs]"

text \<open>
  \<open>calculate_moving_average(price_data, window)\<close>. The argument is \<open>None\<close>
  or a series; the result is an exception, \<open>None\<close> (insufficient data) or the
  series of averages.
\<close>

definition calculate_moving_average ::
  "real list option \<Rightarrow> int \<Rightarrow> error + real option list option" where
  "calculate_moving_average price_data window =
     (case price_data of
        None \<Rightarrow> Inr None
      | Some price_series \<Rightarrow>
          if int (length price_series) < window then Inr None
          else if window < 0 then Inl ValueError
          else Inr (Some (rolling_mean (nat window) price_series)))"

text \<open>\<open>s.iloc[k]\<close> for an integer \<open>k\<close>; negative positions count from the end.\<close>

definition iloc :: "'a list \<Rightarrow> int \<Rightarrow> error + 'a" where
  "iloc xs k =
     (if 0 \<le> k \<and> k < int (length xs) then Inr (xs ! nat k)
      else if k < 0 \<and> - int (length xs) \<le> k then Inr (xs ! nat (int (length xs) + k))
      else Inl IndexError)"

text \<open>
  Lines 98 to 118 of \<open>detect_ma_crossover\<close>: the NaN checks and the comparison of
  the previous and the current pair of averages.
\<close>

definition crossover_of_values ::
  "real option \<Rightarrow> real option \<Rightarrow> real option \<Rightarrow> real option \<Rightarrow> signal option" where
  "crossover_of_values short_previous long_previous short_current long_current =
     (case (short_current, long_current) of
        (Some sc, Some lc) \<Rightarrow>
          (case (short_previous, long_previous) of
             (Some sp, Some lp) \<Rightarrow>
               if sp \<le> lp \<and> sc > lc then Some BUY
               else if sp \<ge> lp \<and> sc < lc then Some SELL
               else None
           | _ \<Rightarrow> None)
      | _ \<Rightarrow> None)"

text \<open>\<open>detect_ma_crossover(price_data, short_window, long_window)\<close>.\<close>

definition detect_ma_crossover ::
  "real list option \<Rightarrow> int \<Rightarrow> int \<Rightarrow> error + signal option" where
  "detect_ma_crossover price_data short_window long_window =
     (case price_data of
        None \<Rightarrow> Inr None
      | Some price_series \<Rightarrow>
          if int (length price_series) < long_window then Inr None
          else
            (case calculate_moving_average price_data short_window of
               Inl e \<Rightarrow> Inl e
             | Inr short_ma \<Rightarrow>
            (case calculate_moving_average price_data long_window of
               Inl e \<Rightarrow> Inl e
             | Inr long_ma \<Rightarrow>
            (case (short_ma, long_ma) of
               (Some sm, Some lm) \<Rightarrow>
                 if length sm < 2 \<or> length lm < 2 then Inr None
                 else
                   (case iloc sm (- 1) of Inl e \<Rightarrow> Inl e | Inr short_current \<Rightarrow>
                   (case iloc lm (- 1) of Inl e \<Rightarrow> Inl e | Inr long_current \<Rightarrow>
                   (case iloc sm (- 2) of Inl e \<Rightarrow> Inl e | Inr short_previous \<Rightarrow>
                   (case iloc lm (- 2) of Inl e \<Rightarrow> Inl e | Inr long_previous \<Rightarrow>
                      Inr (crossover_of_values short_previous long_previous
                             short_current long_current)))))
             | _ \<Rightarrow> Inr None))))"

section \<open>compressor.py\<close>

text \<open>
  The dict built by \<open>compress_market_data\<close>. A field is \<open>None\<close> when the key
  is absent from the dict, which is what \<open>decompress_market_data\<close> tests with
  \<open>not in\<close>.
\<close>

record compressed =
  base_price :: "real option"
  deltas :: "real list option"
  original_length :: "nat option"

definition compress_market_data :: "real list option \<Rightarrow> compressed option" where
  "compress_market_data price_data =
     (case price_data of
        None \<Rightarrow> None
      | Some prices \<Rightarrow>
          if length prices = 0 then None
          else Some \<lparr>base_price = Some (prices ! 0),
                     deltas = Some (map (\<lambda>i. prices ! i - prices ! (i - 1)) [1..<length prices]),
                     original_length = Some (length prices)\<rparr>)"

text \<open>
  The loop of \<open>decompress_market_data\<close> carries \<open>current_price\<close> and the list
  \<open>prices\<close> it appends to.
\<close>

definition decompress_step :: "real \<times> real list \<Rightarrow> real \<Rightarrow> real \<times> real list" where
  "decompress_step acc delta =
     (case acc of (current_price, prices) \<Rightarrow>
        (current_price + delta, prices @ [current_price + delta]))"

definition decompress_market_data :: "compressed option \<Rightarrow> real list option" where
  "decompress_market_data compressed_data =
     (case compressed_data of
        None \<Rightarrow> None
      | Some c \<Rightarrow>
          (case (base_price c, deltas c) of
             (Some b, Some ds) \<Rightarrow> Some (snd (foldl decompress_step (b, [b]) ds))
           | _ \<Rightarrow> None))"

section \<open>config.py\<close>




section \<open>main.py\<close>




section \<open>backtest.py\<close>

subsection \<open>Data\<close>

text \<open>
  The values of the dicts that the engine returns, and the dicts themselves as association
  lists in the order the source writes the keys.
\<close>

datatype pyval = PyInt int | PyFloat real | PyStr string

type_synonym pydict = "(string \<times> pyval) list"

definition getitem :: "pydict \<Rightarrow> string \<Rightarrow> error + pyval" where
  "getitem d k = (case map_of d k of None \<Rightarrow> Inl KeyError | Some v \<Rightarrow> Inr v)"

datatype position_kind = LONG

text \<open>
  A trade dict; its keys carry the prefix \<open>t_\<close> here because the local variables of
  \<open>run_backtest\<close> have the same names. Dates are time stamps.
\<close>

record trade =
  t_entry_date :: "nat option"
  t_exit_date :: nat
  t_entry_price :: real
  t_exit_price :: real
  t_shares :: real
  t_profit :: real
  t_profit_pct :: real
  t_position :: "position_kind option"

text \<open>
  A line that \<open>run_backtest\<close> prints for an entry or an exit. The last field of
  \<open>SellLine\<close> tells whether the line ends with the marker \<open>[CLOSE]\<close>; the first
  is the emoji (\<open>profit > 0\<close>).
\<close>

datatype line =
    BuyLine nat real real
  | SellLine bool nat real real real bool

text \<open>The fields of \<open>self\<close>.\<close>

record engine =
  symbol :: string
  period_months :: int
  initial_capital :: real
  trades :: "trade list"
  portfolio_value :: "real list"

definition BacktestEngine :: "string \<Rightarrow> int \<Rightarrow> real \<Rightarrow> engine" where
  "BacktestEngine ticker months capital =
     \<lparr>symbol = ticker, period_months = months, initial_capital = capital,
      trades = [], portfolio_value = []\<rparr>"

text \<open>
  An activation of \<open>run_backtest\<close>: \<open>self\<close>, the local variables of the
  simulation, and the lines printed so far.
\<close>

record frame = engine +
  position :: "position_kind option"
  entry_price :: real
  entry_date :: "nat option"
  shares :: real
  cash :: real
  printed :: "line list"

text \<open>A row of the data frame: its index (the date), the close and the two averages.\<close>

record row =
  date :: nat
  Close :: real
  Short_MA :: "real option"
  Long_MA :: "real option"

subsection \<open>Indicator columns\<close>

text \<open>
  A data frame: its index (the dates) and its named columns, whose cells are floats or
  missing. The fetched frame has the one column \<open>Close\<close>.
\<close>

type_synonym column = "real option list"

record data_frame =
  df_index :: "nat list"
  df_columns :: "(string \<times> column) list"

definition frame_of :: "(nat \<times> real) list \<Rightarrow> data_frame" where
  "frame_of fetched =
     \<lparr>df_index = map fst fetched, df_columns = [(''Close'', map (Some \<circ> snd) fetched)]\<rparr>"

text \<open>
  The rolling mean of a column that may have missing cells: a window with a missing cell
  has fewer than \<open>window\<close> observations and gives a missing cell.
\<close>

definition rolling_mean_column :: "nat \<Rightarrow> column \<Rightarrow> column" where
  "rolling_mean_column w xs =
     map (\<lambda>i. if w = 0 \<or> i + 1 < w then None
              else map_option (\<lambda>obs. sum_list obs / real w)
                     (those (take w (drop (i + 1 - w) xs))))
         [0..<length xs]"

text \<open>
  \<open>calculate_moving_average(df, window)\<close> at a frame, as lines 56 and 57 call it:
  \<open>len(df)\<close> is the number of rows, a frame is neither \<open>None\<close> nor a list, and
  \<open>df.rolling(window).mean()\<close> is the frame of the rolling means of every column.
\<close>

definition calculate_moving_average_frame ::
  "data_frame \<Rightarrow> int \<Rightarrow> error + (string \<times> column) list option" where
  "calculate_moving_average_frame df window =
     (if int (length (df_index df)) < window then Inr None
      else if window < 0 then Inl ValueError
      else Inr (Some (map (\<lambda>(name, c). (name, rolling_mean_column (nat window) c))
                        (df_columns df))))"

text \<open>
  What \<open>df[key] = value\<close> stores under a new key: \<open>None\<close> fills the column with
  missing cells, a frame of one column gives that column, and pandas refuses a frame of
  any other number of columns with ValueError.
\<close>

definition assigned_column :: "data_frame \<Rightarrow> (string \<times> column) list option \<Rightarrow> error + column" where
  "assigned_column df v =
     (case v of
        None \<Rightarrow> Inr (replicate (length (df_index df)) None)
      | Some cols \<Rightarrow>
          (case cols of
             [] \<Rightarrow> Inl ValueError
           | nc # others \<Rightarrow> (if others = [] then Inr (snd nc) else Inl ValueError)))"

text \<open>
  Lines 56 and 57. The second call gets the frame that already holds \<open>Short_MA\<close>,
  hence two columns. The rows pair each date and close with its cells of the two new
  columns.
\<close>

definition with_indicators :: "(nat \<times> real) list \<Rightarrow> int \<Rightarrow> int \<Rightarrow> error + row list" where
  "with_indicators fetched short_period long_period =
     (let df = frame_of fetched
      in case calculate_moving_average_frame df short_period of
           Inl e \<Rightarrow> Inl e
         | Inr short_result \<Rightarrow>
        (case assigned_column df short_result of
           Inl e \<Rightarrow> Inl e
         | Inr short_col \<Rightarrow>
        (let df1 = df\<lparr>df_columns := df_columns df @ [(''Short_MA'', short_col)]\<rparr>
         in case calculate_moving_average_frame df1 long_period of
              Inl e \<Rightarrow> Inl e
            | Inr long_result \<Rightarrow>
           (case assigned_column df1 long_result of
              Inl e \<Rightarrow> Inl e
            | Inr long_col \<Rightarrow>
                Inr (map (\<lambda>(dc, s, l).
                            \<lparr>date = fst dc, Close = snd dc, Short_MA = s, Long_MA = l\<rparr>)
                       (zip fetched (zip short_col long_col)))))))"

definition dropna :: "row list \<Rightarrow> row list" where
  "dropna df = filter (\<lambda>r. Short_MA r \<noteq> None \<and> Long_MA r \<noteq> None) df"

subsection \<open>The call of the crossover detector\<close>

text \<open>
  Python binds positional arguments to the parameters of a function that has neither
  defaults nor a star parameter only when their numbers agree, and raises TypeError
  otherwise, before the body runs.
\<close>

definition bind_positional :: "string list \<Rightarrow> 'v list \<Rightarrow> error + (string \<times> 'v) list" where
  "bind_positional params args =
     (if length args = length params then Inr (zip params args) else Inl TypeError)"

definition detect_ma_crossover_params :: "string list" where
  "detect_ma_crossover_params = [''price_data'', ''short_window'', ''long_window'']"

text \<open>
  The call of line 74, \<open>detect_ma_crossover(a, b, c, d)\<close>, whose arguments are floats
  read from two rows. Were three floats bound, \<open>price_data\<close> would be a float, which is
  not \<open>None\<close> and has no \<open>len\<close>: the first line of the body raises TypeError.
\<close>

definition call_detect_ma_crossover :: "real option list \<Rightarrow> error + signal option" where
  "call_detect_ma_crossover args =
     (case bind_positional detect_ma_crossover_params args of
        Inl e \<Rightarrow> Inl e
      | Inr bound \<Rightarrow> Inl TypeError)"

subsection \<open>The simulation\<close>

text \<open>
  Lines 85 to 93: the branch \<open>signal == "BUY" and position is None\<close>. At a close
  of 0 the quotient \<open>cash / current_price\<close> is inf or nan.
\<close>

definition enter_long :: "row \<Rightarrow> frame \<Rightarrow> error + frame" where
  "enter_long current_row s =
     (let current_price = Close current_row; current_date = date current_row
      in if current_price = 0 then Inl NonFinite
         else Inr (s\<lparr>shares := cash s / current_price,
                     entry_price := current_price,
                     entry_date := Some current_date,
                     position := Some LONG,
                     cash := 0,
                     printed := printed s @
                       [BuyLine current_date current_price (cash s / current_price)]\<rparr>))"

text \<open>
  Lines 95 to 118: the branch \<open>signal == "SELL" and position == "LONG"\<close>. At an
  entry price of 0 the percentage is inf or nan.
\<close>

definition exit_long :: "row \<Rightarrow> frame \<Rightarrow> error + frame" where
  "exit_long current_row s =
     (let exit_price = Close current_row; current_date = date current_row;
          profit = (exit_price - entry_price s) * shares s
      in if entry_price s = 0 then Inl NonFinite
         else
           let profit_pct = ((exit_price - entry_price s) / entry_price s) * 100
           in Inr (s\<lparr>cash := shares s * exit_price,
                       trades := trades s @
                         [\<lparr>t_entry_date = entry_date s, t_exit_date = current_date,
                           t_entry_price = entry_price s, t_exit_price = exit_price,
                           t_shares = shares s, t_profit = profit,
                           t_profit_pct = profit_pct, t_position = position s\<rparr>],
                       position := None,
                       shares := 0,
                       printed := printed s @
                         [SellLine (profit > 0) current_date exit_price profit profit_pct
                            False]\<rparr>))"

text \<open>
  The body of the loop \<open>for i in range(1, len(df))\<close>: the call of the detector, the
  two branches, and the valuation appended to \<open>self.portfolio_value\<close>.
\<close>

definition step :: "row \<Rightarrow> row \<Rightarrow> frame \<Rightarrow> error + frame" where
  "step previous_row current_row s =
     (case call_detect_ma_crossover
             [Short_MA previous_row, Long_MA previous_row,
              Short_MA current_row, Long_MA current_row] of
        Inl e \<Rightarrow> Inl e
      | Inr signal \<Rightarrow>
          (case (if signal = Some BUY \<and> position s = None then enter_long current_row s
                 else if signal = Some SELL \<and> position s = Some LONG then exit_long current_row s
                 else Inr s) of
             Inl e \<Rightarrow> Inl e
           | Inr s' \<Rightarrow>
               Inr (s'\<lparr>portfolio_value := portfolio_value s' @
                          [if position s' = Some LONG then shares s' * Close current_row
                           else cash s']\<rparr>)))"

fun trading_loop :: "row list \<Rightarrow> frame \<Rightarrow> error + frame" where
  "trading_loop (previous_row # current_row # rest) s =
     (case step previous_row current_row s of
        Inl e \<Rightarrow> Inl e
      | Inr s' \<Rightarrow> trading_loop (current_row # rest) s')"
| "trading_loop df s = Inr s"

text \<open>
  Lines 129 to 151: the position still open after the loop is closed at the close of the
  last row. The line printed ends with \<open>[CLOSE]\<close>; \<open>shares\<close> is left as it is.
  At an entry price of 0 the percentage is inf or nan.
\<close>

definition close_open_position :: "row list \<Rightarrow> frame \<Rightarrow> error + frame" where
  "close_open_position df s =
     (if position s = Some LONG then
        (case iloc df (- 1) of
           Inl e \<Rightarrow> Inl e
         | Inr last_row \<Rightarrow>
             let final_price = Close last_row; final_date = date last_row;
                 profit = (final_price - entry_price s) * shares s
             in if entry_price s = 0 then Inl NonFinite
                else
                  let profit_pct = ((final_price - entry_price s) / entry_price s) * 100
                  in Inr (s\<lparr>cash := shares s * final_price,
                              trades := trades s @
                                [\<lparr>t_entry_date = entry_date s, t_exit_date = final_date,
                                  t_entry_price = entry_price s, t_exit_price = final_price,
                                  t_shares = shares s, t_profit = profit,
                                  t_profit_pct = profit_pct, t_position = position s\<rparr>],
                              printed := printed s @
                                [SellLine (profit > 0) final_date final_price profit profit_pct
                                   True],
                              position := None\<rparr>))
      else Inr s)"

subsection \<open>Metrics\<close>

text \<open>
  The loop of \<open>_calculate_max_drawdown\<close> over \<open>self.portfolio_value\<close>, with the
  running \<open>peak\<close> and \<open>max_dd\<close>.
\<close>

fun drawdown_loop :: "real list \<Rightarrow> real \<Rightarrow> real \<Rightarrow> error + real" where
  "drawdown_loop [] peak max_dd = Inr max_dd"
| "drawdown_loop (v # rest) peak max_dd =
     (let peak' = (if v > peak then v else peak)
      in if peak' = 0 then Inl ZeroDivisionError
         else
           let drawdown = ((peak' - v) / peak') * 100
           in drawdown_loop rest peak' (if drawdown > max_dd then drawdown else max_dd))"

definition calculate_max_drawdown :: "'a engine_scheme \<Rightarrow> error + real" where
  "calculate_max_drawdown self =
     (case portfolio_value self of
        [] \<Rightarrow> Inr 0
      | first # others \<Rightarrow> drawdown_loop (portfolio_value self) first 0)"

text \<open>\<open>_calculate_metrics(self, final_cash)\<close>.\<close>

definition calculate_metrics :: "'a engine_scheme \<Rightarrow> real \<Rightarrow> error + pydict" where
  "calculate_metrics self final_cash =
     (case trades self of
        [] \<Rightarrow>
          Inr [(''total_trades'', PyInt 0),
               (''winning_trades'', PyInt 0),
               (''losing_trades'', PyInt 0),
               (''win_rate'', PyFloat 0),
               (''total_return'', PyFloat 0),
               (''total_return_pct'', PyFloat 0),
               (''avg_profit_per_trade'', PyFloat 0),
               (''max_profit'', PyFloat 0),
               (''max_loss'', PyFloat 0),
               (''final_capital'', PyFloat final_cash)]
      | t # ts \<Rightarrow>
          let total_trades = int (length (trades self));
              winning_trades = int (length (filter (\<lambda>t. t_profit t > 0) (trades self)));
              losing_trades = int (length (filter (\<lambda>t. t_profit t \<le> 0) (trades self)));
              win_rate = (if total_trades > 0
                          then real_of_int winning_trades / real_of_int total_trades * 100
                          else 0);
              total_profit = sum_list (map t_profit (trades self))
          in if initial_capital self = 0 then Inl ZeroDivisionError
             else
               let total_return_pct =
                     ((final_cash - initial_capital self) / initial_capital self) * 100;
                   avg_profit = (if total_trades > 0 then total_profit / real_of_int total_trades
                                 else 0);
                   max_profit = fold max (map t_profit ts) (t_profit t);
                   max_loss = fold min (map t_profit ts) (t_profit t)
               in (case calculate_max_drawdown self of
                     Inl e \<Rightarrow> Inl e
                   | Inr max_drawdown \<Rightarrow>
                       Inr [(''total_trades'', PyInt total_trades),
                            (''winning_trades'', PyInt winning_trades),
                            (''losing_trades'', PyInt losing_trades),
                            (''win_rate'', PyFloat win_rate),
                            (''total_return'', PyFloat total_profit),
                            (''total_return_pct'', PyFloat total_return_pct),
                            (''avg_profit_per_trade'', PyFloat avg_profit),
                            (''max_profit'', PyFloat max_profit),
                            (''max_loss'', PyFloat max_loss),
                            (''max_drawdown'', PyFloat max_drawdown),
                            (''final_capital'', PyFloat final_cash)]))"

text \<open>
  \<open>_display_results(results)\<close> reads these keys, in this order, with
  \<open>results[key]\<close>. The flag tells whether the f-string formats the value with a
  format spec that ends in \<open>f\<close>, which a number accepts and a string refuses with
  ValueError. It then chooses the verdict from \<open>total_return_pct\<close> by comparing
  it with numbers, which raises TypeError for a string; the format of line 243 refuses a
  string before that comparison is reached.
\<close>

definition displayed_keys :: "(string \<times> bool) list" where
  "displayed_keys =
     [(''total_trades'', False), (''winning_trades'', False), (''losing_trades'', False),
      (''win_rate'', True), (''final_capital'', True), (''total_return'', True),
      (''total_return_pct'', True), (''avg_profit_per_trade'', True),
      (''max_profit'', True), (''max_loss'', True), (''max_drawdown'', True)]"

definition as_number :: "pyval \<Rightarrow> real option" where
  "as_number v =
     (case v of PyInt n \<Rightarrow> Some (real_of_int n) | PyFloat x \<Rightarrow> Some x | PyStr x \<Rightarrow> None)"

fun read_keys :: "pydict \<Rightarrow> (string \<times> bool) list \<Rightarrow> error + unit" where
  "read_keys results [] = Inr ()"
| "read_keys results (kf # ks) =
     (case getitem results (fst kf) of
        Inl e \<Rightarrow> Inl e
      | Inr v \<Rightarrow>
          if snd kf \<and> as_number v = None then Inl ValueError
          else read_keys results ks)"

definition verdict :: "real \<Rightarrow> string" where
  "verdict x =
     (if x > 10 then ''Excellent Performance!''
      else if x > 0 then ''Profitable Strategy''
      else if x = 0 then ''Break Even''
      else ''Strategy Needs Improvement'')"

definition display_results :: "pydict \<Rightarrow> error + string" where
  "display_results results =
     (case read_keys results displayed_keys of
        Inl e \<Rightarrow> Inl e
      | Inr u \<Rightarrow>
          (case getitem results ''total_return_pct'' of
             Inl e \<Rightarrow> Inl e
           | Inr v \<Rightarrow>
               (case as_number v of
                  None \<Rightarrow> Inl TypeError
                | Some x \<Rightarrow> Inr (verdict x))))"

subsection \<open>run_backtest\<close>

text \<open>
  \<open>run_backtest(self)\<close>. The data source is outside the model: what
  \<open>fetch_stock_data\<close> returned is the argument \<open>fetched\<close> (\<open>None\<close>, or
  the frame as its dates and closes). The call passes the keywords \<open>period\<close> and
  \<open>interval\<close>, which the function of \<open>data_fetcher.py\<close> does not accept, so
  the frame comes from a fetcher with that interface. The two periods that the module
  imports from \<open>config\<close>, which does not define them, are arguments too. The result
  is an exception, or \<open>self\<close> as the run leaves it with the dict returned.
\<close>

definition run_backtest ::
  "engine \<Rightarrow> (nat \<times> real) list option \<Rightarrow> int \<Rightarrow> int \<Rightarrow> error + engine \<times> pydict" where
  "run_backtest self fetched short_ma_period long_ma_period =
     (case fetched of
        None \<Rightarrow> Inr (self, [(''error'', PyStr ''Failed to fetch historical data'')])
      | Some df \<Rightarrow>
          if df = [] then Inr (self, [(''error'', PyStr ''Failed to fetch historical data'')])
          else
            (case with_indicators df short_ma_period long_ma_period of
               Inl e \<Rightarrow> Inl e
             | Inr df_ma \<Rightarrow>
                 let df' = dropna df_ma;
                     s0 = engine.extend self
                            \<lparr>position = None, entry_price = 0, entry_date = None,
                             shares = 0, cash = initial_capital self, printed = []\<rparr>
                 in (case trading_loop df' s0 of
                       Inl e \<Rightarrow> Inl e
                     | Inr s1 \<Rightarrow>
                    (case close_open_position df' s1 of
                       Inl e \<Rightarrow> Inl e
                     | Inr s2 \<Rightarrow>
                    (case calculate_metrics s2 (cash s2) of
                       Inl e \<Rightarrow> Inl e
                     | Inr results \<Rightarrow>
                    (case display_results results of
                       Inl e \<Rightarrow> Inl e
                     | Inr shown \<Rightarrow> Inr (engine.truncate s2, results)))))))"

section \<open>Insufficient data\<close>

lemma length_rolling_mean: "length (rolling_mean w xs) = length xs"
  by (simp add: rolling_mean_def)

text \<open>
  C9. A series shorter than the window makes the Moving Average Calculator return
  \<open>None\<close> (no series is computed), and a series shorter than \<open>long_window\<close>
  makes crossover detection return \<open>None\<close>: a normal return, neither a number nor
  an exception, whatever the other window is.
\<close>

theorem insufficient_data_returns_None:
  assumes "int (length xs) < window"
  shows "calculate_moving_average (Some xs) window = Inr None
       \<and> detect_ma_crossover (Some xs) short_window window = Inr None"
  using assms by (simp add: calculate_moving_average_def detect_ma_crossover_def)

theorem insufficient_data_returns_None_witness:
  "int (length [100, 101, 102 :: real]) < 20
   \<and> calculate_moving_average (Some [100, 101, 102]) 20 = Inr None
   \<and> detect_ma_crossover (Some [100, 101, 102]) 5 20 = Inr None"
  using insufficient_data_returns_None [of "[100, 101, 102]" 20 5] by simp

section \<open>The moving average\<close>

lemma sum_list_window:
  assumes "j + w \<le> length xs"
  shows "sum_list (take w (drop j xs)) = (\<Sum>k = j..<j + w. (xs ! k :: real))"
proof -
  have len: "length (take w (drop j xs)) = w"
    using assms by simp
  have "sum_list (take w (drop j xs)) = (\<Sum>i = 0..<w. take w (drop j xs) ! i)"
    using len by (simp add: sum_list_sum_nth)
  also have "\<dots> = (\<Sum>i = 0..<w. xs ! (i + j))"
    using assms by (intro sum.cong) (simp_all add: add.commute)
  also have "\<dots> = (\<Sum>k = 0 + j..<w + j. xs ! k)"
    by (simp only: sum.shift_bounds_nat_ivl)
  finally show ?thesis by (simp add: add.commute)
qed

lemma rolling_mean_nth:
  assumes "i < length xs"
  shows "rolling_mean w xs ! i =
           (if w = 0 \<or> i + 1 < w then None
            else Some (sum_list (take w (drop (i + 1 - w) xs)) / real w))"
  using assms by (simp add: rolling_mean_def)

lemma rolling_mean_defined_count:
  assumes "0 < w" "w \<le> length xs"
  shows "length (filter (\<lambda>v. v \<noteq> None) (rolling_mean w xs)) = length xs - w + 1"
proof -
  let ?P = "\<lambda>i. \<not> (i + 1 < w)"
  have split: "[0..<length xs] = [0..<w - 1] @ [w - 1..<length xs]"
    using assms upt_add_eq_append [of 0 "w - 1" "length xs - (w - 1)"] by simp
  have "length (filter (\<lambda>v. v \<noteq> None) (rolling_mean w xs))
          = length (filter ?P [0..<length xs])"
    using assms(1) by (simp add: rolling_mean_def filter_map comp_def)
  also have "\<dots> = length (filter ?P [w - 1..<length xs])"
    unfolding split by (auto simp: filter_empty_conv)
  also have "\<dots> = length [w - 1..<length xs]"
    by (rule arg_cong [where f = length], rule filter_True) auto
  finally show ?thesis using assms by simp
qed

lemma sum_interval_as_list:
  "(\<Sum>k = a..b. f k) = sum_list (map f [a..<Suc b])" for f :: "nat \<Rightarrow> real"
proof -
  have "(\<Sum>k = a..b. f k) = sum f (set [a..<Suc b])"
    by (simp only: atLeastAtMost_upt)
  then show ?thesis
    by (simp only: sum_set_upt_conv_sum_list_nat)
qed

text \<open>
  C3. For a positive window \<open>W\<close> and a series of length \<open>L \<ge> W\<close> the
  Moving Average Calculator returns a series of length \<open>L\<close> whose entries below
  index \<open>W - 1\<close> are undefined and whose entry at every index \<open>i \<ge> W - 1\<close> is
  the arithmetic mean of \<open>prices[i - W + 1 .. i]\<close>; exactly \<open>L - W + 1\<close>
  entries are defined.
\<close>

theorem moving_average_window_mean:
  assumes "0 < window" and "window \<le> int (length prices)"
  shows "\<exists>ma. calculate_moving_average (Some prices) window = Inr (Some ma)
           \<and> length ma = length prices
           \<and> (\<forall>i. i < nat window - 1 \<longrightarrow> ma ! i = None)
           \<and> (\<forall>i. nat window - 1 \<le> i \<and> i < length prices \<longrightarrow>
                  ma ! i = Some ((\<Sum>k = i + 1 - nat window..i. prices ! k) / real_of_int window))
           \<and> length (filter (\<lambda>v. v \<noteq> None) ma) = length prices - nat window + 1"
proof -
  define w where "w = nat window"
  have w: "0 < w" "w \<le> length prices" "real_of_int window = real w"
    using assms by (simp_all add: w_def)
  have run: "calculate_moving_average (Some prices) window = Inr (Some (rolling_mean w prices))"
    using assms by (simp add: calculate_moving_average_def w_def)
  have undefined_prefix: "rolling_mean w prices ! i = None" if "i < w - 1" for i
    using that w by (simp add: rolling_mean_nth)
  have mean: "rolling_mean w prices ! i = Some ((\<Sum>k = i + 1 - w..i. prices ! k) / real w)"
    if "w - 1 \<le> i" "i < length prices" for i
  proof -
    have "(i + 1 - w) + w \<le> length prices" "i + 1 - w + w = Suc i"
      using that w by simp_all
    then have "sum_list (take w (drop (i + 1 - w) prices)) = (\<Sum>k = i + 1 - w..<Suc i. prices ! k)"
      using sum_list_window [of "i + 1 - w" w prices] by simp
    then show ?thesis
      using that w by (simp add: rolling_mean_nth atLeastLessThanSuc_atLeastAtMost)
  qed
  show ?thesis
    using run undefined_prefix mean rolling_mean_defined_count [OF w(1,2)] w(3)
    by (simp add: length_rolling_mean flip: w_def)
qed

theorem moving_average_window_mean_witness:
  "(0::int) < 3 \<and> 3 \<le> int (length [100, 102, 104, 106, 108, 110, 112 :: real])
   \<and> (\<exists>ma. calculate_moving_average (Some [100, 102, 104, 106, 108, 110, 112]) 3 = Inr (Some ma)
         \<and> length ma = 7 \<and> ma ! 1 = None \<and> ma ! 2 = Some 102 \<and> ma ! 6 = Some 110
         \<and> length (filter (\<lambda>v. v \<noteq> None) ma) = 5)"
proof -
  have h: "(0::int) < 3" "3 \<le> int (length [100, 102, 104, 106, 108, 110, 112 :: real])"
    by simp_all
  obtain ma where ma: "calculate_moving_average (Some [100, 102, 104, 106, 108, 110, 112]) 3 = Inr (Some ma)"
      "length ma = length [100, 102, 104, 106, 108, 110, 112 :: real]"
      "\<forall>i. i < nat 3 - 1 \<longrightarrow> ma ! i = None"
      "\<forall>i. nat 3 - 1 \<le> i \<and> i < length [100, 102, 104, 106, 108, 110, 112 :: real] \<longrightarrow>
          ma ! i = Some ((\<Sum>k = i + 1 - nat 3..i. [100, 102, 104, 106, 108, 110, 112] ! k) / real_of_int 3)"
      "length (filter (\<lambda>v. v \<noteq> None) ma) = length [100, 102, 104, 106, 108, 110, 112 :: real] - nat 3 + 1"
    using moving_average_window_mean [OF h] by blast
  have "ma ! 1 = None" using ma(3) by simp
  moreover have "ma ! 2 = Some 102"
    using ma(4) [rule_format, of 2] by (simp add: sum_interval_as_list eval_nat_numeral)
  moreover have "ma ! 6 = Some 110"
    using ma(4) [rule_format, of 6] by (simp add: sum_interval_as_list eval_nat_numeral)
  ultimately show ?thesis using ma(1,2,5) by simp
qed

section \<open>The crossover detector\<close>

lemma iloc_last: "xs \<noteq> [] \<Longrightarrow> iloc xs (- 1) = Inr (xs ! (length xs - 1))"
  by (cases xs) (simp_all add: iloc_def nat_diff_distrib' nat_add_distrib)

lemma iloc_before_last: "2 \<le> length xs \<Longrightarrow> iloc xs (- 2) = Inr (xs ! (length xs - 2))"
proof -
  assume a: "2 \<le> length xs"
  then have "nat (int (length xs) + - 2) = length xs - 2" by simp
  with a show ?thesis by (simp add: iloc_def)
qed

lemma crossover_of_values_BUY:
  "crossover_of_values sp lp sc lc = Some BUY \<longleftrightarrow>
     (\<exists>a b c d. sp = Some a \<and> lp = Some b \<and> sc = Some c \<and> lc = Some d \<and> a \<le> b \<and> c > d)"
  by (auto simp: crossover_of_values_def split: option.splits)

lemma crossover_of_values_SELL:
  "crossover_of_values sp lp sc lc = Some SELL \<longleftrightarrow>
     (\<exists>a b c d. sp = Some a \<and> lp = Some b \<and> sc = Some c \<and> lc = Some d \<and> a \<ge> b \<and> c < d)"
  by (auto simp: crossover_of_values_def split: option.splits)

lemma crossover_of_values_undefined:
  "sp = None \<or> lp = None \<or> sc = None \<or> lc = None \<Longrightarrow> crossover_of_values sp lp sc lc = None"
  by (auto simp: crossover_of_values_def split: option.splits)

text \<open>
  C2. Where the detector reaches its comparison (both averages are computed over at least
  two prices), let \<open>s_prev\<close>, \<open>l_prev\<close>, \<open>s_cur\<close>, \<open>l_cur\<close> be
  the entries of the short and the long series at the last two indices. The detector
  returns BUY exactly when all four are defined, \<open>s_prev \<le> l_prev\<close> and
  \<open>s_cur > l_cur\<close>; SELL exactly when all four are defined,
  \<open>s_prev \<ge> l_prev\<close> and \<open>s_cur < l_cur\<close>; and no signal in every other case,
  in particular when one of the four is undefined. The two conditions exclude each other.
\<close>

theorem detect_ma_crossover_classifies:
  assumes short: "calculate_moving_average (Some prices) short_window = Inr (Some short_ma)"
      and long: "calculate_moving_average (Some prices) long_window = Inr (Some long_ma)"
      and two: "2 \<le> length prices"
      and s_prev: "s_prev = short_ma ! (length prices - 2)"
      and l_prev: "l_prev = long_ma ! (length prices - 2)"
      and s_cur: "s_cur = short_ma ! (length prices - 1)"
      and l_cur: "l_cur = long_ma ! (length prices - 1)"
  shows "\<exists>r. detect_ma_crossover (Some prices) short_window long_window = Inr r
           \<and> (r = Some BUY \<longleftrightarrow>
                (\<exists>a b c d. s_prev = Some a \<and> l_prev = Some b \<and> s_cur = Some c \<and> l_cur = Some d
                   \<and> a \<le> b \<and> c > d))
           \<and> (r = Some SELL \<longleftrightarrow>
                (\<exists>a b c d. s_prev = Some a \<and> l_prev = Some b \<and> s_cur = Some c \<and> l_cur = Some d
                   \<and> a \<ge> b \<and> c < d))
           \<and> (r = None \<longleftrightarrow> r \<noteq> Some BUY \<and> r \<noteq> Some SELL)
           \<and> (s_prev = None \<or> l_prev = None \<or> s_cur = None \<or> l_cur = None \<longrightarrow> r = None)
           \<and> \<not> ((\<exists>a b c d. s_prev = Some a \<and> l_prev = Some b \<and> s_cur = Some c \<and> l_cur = Some d
                     \<and> a \<le> b \<and> c > d)
                \<and> (\<exists>a b c d. s_prev = Some a \<and> l_prev = Some b \<and> s_cur = Some c \<and> l_cur = Some d
                     \<and> a \<ge> b \<and> c < d))"
proof -
  have ls: "length short_ma = length prices" and ll: "length long_ma = length prices"
    using short long
    by (auto simp: calculate_moving_average_def length_rolling_mean split: if_splits)
  have enough: "\<not> int (length prices) < long_window"
    using long by (auto simp: calculate_moving_average_def split: if_splits)
  have ne: "short_ma \<noteq> []" "long_ma \<noteq> []"
    using ls ll two by auto
  have run: "detect_ma_crossover (Some prices) short_window long_window
               = Inr (crossover_of_values s_prev l_prev s_cur l_cur)"
    using short long enough two ls ll
    by (simp add: detect_ma_crossover_def iloc_last [OF ne(1)] iloc_last [OF ne(2)]
        iloc_before_last s_prev l_prev s_cur l_cur)
  have none: "r = None \<longleftrightarrow> r \<noteq> Some BUY \<and> r \<noteq> Some SELL" for r :: "signal option"
    by (cases r) (auto intro: signal.exhaust)
  let ?r = "crossover_of_values s_prev l_prev s_cur l_cur"
  show ?thesis
  proof (intro exI [of _ ?r] conjI)
    show "detect_ma_crossover (Some prices) short_window long_window = Inr ?r"
      by (rule run)
    show "?r = Some BUY \<longleftrightarrow>
            (\<exists>a b c d. s_prev = Some a \<and> l_prev = Some b \<and> s_cur = Some c \<and> l_cur = Some d
               \<and> a \<le> b \<and> c > d)"
      by (rule crossover_of_values_BUY)
    show "?r = Some SELL \<longleftrightarrow>
            (\<exists>a b c d. s_prev = Some a \<and> l_prev = Some b \<and> s_cur = Some c \<and> l_cur = Some d
               \<and> a \<ge> b \<and> c < d)"
      by (rule crossover_of_values_SELL)
    show "?r = None \<longleftrightarrow> ?r \<noteq> Some BUY \<and> ?r \<noteq> Some SELL"
      by (rule none)
    show "s_prev = None \<or> l_prev = None \<or> s_cur = None \<or> l_cur = None \<longrightarrow> ?r = None"
      using crossover_of_values_undefined [of s_prev l_prev s_cur l_cur] by blast
    show "\<not> ((\<exists>a b c d. s_prev = Some a \<and> l_prev = Some b \<and> s_cur = Some c \<and> l_cur = Some d
                 \<and> a \<le> b \<and> c > d)
            \<and> (\<exists>a b c d. s_prev = Some a \<and> l_prev = Some b \<and> s_cur = Some c \<and> l_cur = Some d
                 \<and> a \<ge> b \<and> c < d))"
      by auto
  qed
qed

theorem detect_ma_crossover_classifies_witness:
  "calculate_moving_average (Some [1, 1, 3]) 1 = Inr (Some [Some 1, Some 1, Some 3])
   \<and> calculate_moving_average (Some [1, 1, 3]) 2 = Inr (Some [None, Some 1, Some 2])
   \<and> 2 \<le> length [1, 1, 3 :: real]
   \<and> detect_ma_crossover (Some [1, 1, 3]) 1 2 = Inr (Some BUY)"
proof -
  have short: "calculate_moving_average (Some [1, 1, 3]) 1 = Inr (Some [Some 1, Some 1, Some 3])"
    by (simp add: calculate_moving_average_def rolling_mean_def eval_nat_numeral)
  have long: "calculate_moving_average (Some [1, 1, 3]) 2 = Inr (Some [None, Some 1, Some 2])"
    by (simp add: calculate_moving_average_def rolling_mean_def eval_nat_numeral)
  have two: "2 \<le> length [1, 1, 3 :: real]"
    by simp
  obtain r where r: "detect_ma_crossover (Some [1, 1, 3]) 1 2 = Inr r"
    and buy: "r = Some BUY \<longleftrightarrow>
      (\<exists>a b c d. [Some 1, Some 1, Some (3::real)] ! (length [1, 1, 3 :: real] - 2) = Some a
         \<and> [None, Some 1, Some (2::real)] ! (length [1, 1, 3 :: real] - 2) = Some b
         \<and> [Some 1, Some 1, Some (3::real)] ! (length [1, 1, 3 :: real] - 1) = Some c
         \<and> [None, Some 1, Some (2::real)] ! (length [1, 1, 3 :: real] - 1) = Some d
         \<and> a \<le> b \<and> c > d)"
    using detect_ma_crossover_classifies [OF short long two refl refl refl refl] by blast
  have "r = Some BUY"
    unfolding buy by simp
  with r short long two show ?thesis by simp
qed

section \<open>The compressor\<close>

lemma deltas_Cons:
  "map (\<lambda>i. (x # y # r) ! i - (x # y # r) ! (i - 1)) [1..<length (x # y # r)]
     = (y - x) # map (\<lambda>i. (y # r) ! i - (y # r) ! (i - 1)) [1..<length (y # r)]"
    for x y :: real
proof -
  have "[1..<length (x # y # r)] = 1 # [Suc 1..<Suc (length (y # r))]"
    by (subst upt_rec) simp
  then have "[1..<length (x # y # r)] = 1 # map Suc [1..<length (y # r)]"
    by (simp only: map_Suc_upt)
  moreover have "map (\<lambda>i. (x # y # r) ! i - (x # y # r) ! (i - 1)) (map Suc [1..<length (y # r)])
                   = map (\<lambda>i. (y # r) ! i - (y # r) ! (i - 1)) [1..<length (y # r)]"
    by (auto simp: nth_Cons')
  ultimately show ?thesis by simp
qed

lemma foldl_decompress_step:
  "foldl decompress_step (cur, acc)
       (map (\<lambda>i. (cur # r) ! i - (cur # r) ! (i - 1)) [1..<length (cur # r)])
     = (last (cur # r), acc @ r)"
proof (induction r arbitrary: cur acc)
  case Nil
  then show ?case by simp
next
  case (Cons y r)
  have "foldl decompress_step (cur, acc)
          (map (\<lambda>i. (cur # y # r) ! i - (cur # y # r) ! (i - 1)) [1..<length (cur # y # r)])
        = foldl decompress_step (y, acc @ [y])
            (map (\<lambda>i. (y # r) ! i - (y # r) ! (i - 1)) [1..<length (y # r)])"
    by (simp only: deltas_Cons foldl_Cons) (simp add: decompress_step_def)
  also have "\<dots> = (last (y # r), (acc @ [y]) @ r)"
    by (rule Cons.IH)
  finally show ?case by simp
qed

text \<open>
  C10. Decompressing what \<open>compress_market_data\<close> returns for a non-empty list of
  prices gives the list back: the same length and, index by index, the same prices.
\<close>

theorem decompress_compress_roundtrip:
  assumes "prices \<noteq> []"
  shows "\<exists>c out. compress_market_data (Some prices) = Some c
           \<and> decompress_market_data (Some c) = Some out
           \<and> length out = length prices
           \<and> (\<forall>i. i < length prices \<longrightarrow> out ! i = prices ! i)
           \<and> out = prices"
proof -
  obtain x r where xr: "prices = x # r"
    using assms by (cases prices) auto
  let ?c = "\<lparr>base_price = Some (prices ! 0),
             deltas = Some (map (\<lambda>i. prices ! i - prices ! (i - 1)) [1..<length prices]),
             original_length = Some (length prices)\<rparr>"
  have c: "compress_market_data (Some prices) = Some ?c"
    using assms by (simp add: compress_market_data_def)
  have "foldl decompress_step (x, [x])
          (map (\<lambda>i. (x # r) ! i - (x # r) ! (i - 1)) [1..<length (x # r)]) = (last (x # r), [x] @ r)"
    by (rule foldl_decompress_step)
  then have d: "decompress_market_data (Some ?c) = Some prices"
    by (simp add: decompress_market_data_def xr)
  show ?thesis
    using c d by simp
qed

theorem decompress_compress_roundtrip_witness:
  "[100.5, 100.52, 100.48, 100.51 :: real] \<noteq> []
   \<and> (\<exists>c. compress_market_data (Some [100.5, 100.52, 100.48, 100.51]) = Some c
        \<and> decompress_market_data (Some c) = Some [100.5, 100.52, 100.48, 100.51])"
  using decompress_compress_roundtrip [of "[100.5, 100.52, 100.48, 100.51]"] by auto

section \<open>The maximum drawdown\<close>

lemma drawdown_loop_returns:
  assumes "peak \<noteq> 0" and "0 \<notin> set vs"
  shows "\<exists>d. drawdown_loop vs peak max_dd = Inr d"
  using assms
proof (induction vs arbitrary: peak max_dd)
  case Nil
  then show ?case by simp
next
  case (Cons v rest)
  let ?peak = "if v > peak then v else peak"
  have "?peak \<noteq> 0" and "0 \<notin> set rest"
    using Cons.prems by auto
  from Cons.IH [OF this] show ?case
    using \<open>?peak \<noteq> 0\<close> by (simp add: Let_def)
qed

lemma drawdown_loop_lower_bound:
  assumes "drawdown_loop vs peak max_dd = Inr d"
  shows "max_dd \<le> d"
  using assms
proof (induction vs arbitrary: peak max_dd)
  case Nil
  then show ?case by simp
next
  case (Cons v rest)
  let ?peak = "if v > peak then v else peak"
  let ?dd = "((?peak - v) / ?peak) * 100"
  let ?m = "if ?dd > max_dd then ?dd else max_dd"
  have "drawdown_loop rest ?peak ?m = Inr d"
    using Cons.prems by (simp add: Let_def split: if_splits)
  then have "?m \<le> d"
    by (rule Cons.IH)
  moreover have "max_dd \<le> ?m"
    by simp
  ultimately show ?case by (rule order_trans [rotated])
qed

lemma drawdown_loop_non_decreasing:
  assumes "sorted vs" and "\<forall>v \<in> set vs. peak \<le> v" and "0 \<notin> set vs"
  shows "drawdown_loop vs peak 0 = Inr 0"
  using assms
proof (induction vs arbitrary: peak)
  case Nil
  then show ?case by simp
next
  case (Cons v rest)
  have pv: "peak \<le> v" and v0: "v \<noteq> 0"
    using Cons.prems by auto
  have peak': "(if v > peak then v else peak) = v"
    using pv by simp
  have "drawdown_loop rest v 0 = Inr 0"
    using Cons.prems by (intro Cons.IH) auto
  then show ?case
    using v0 by (simp add: peak' Let_def)
qed

lemma drawdown_loop_sorted_result:
  assumes "sorted vs" and "\<forall>v \<in> set vs. peak \<le> v" and "drawdown_loop vs peak 0 = Inr d"
  shows "d = 0"
  using assms
proof (induction vs arbitrary: peak)
  case Nil
  then show ?case by simp
next
  case (Cons v rest)
  have pv: "peak \<le> v"
    using Cons.prems by auto
  have peak': "(if v > peak then v else peak) = v"
    using pv by simp
  have v0: "v \<noteq> 0"
    using Cons.prems(3) by (auto simp: peak' Let_def split: if_splits)
  have "drawdown_loop rest v 0 = Inr d"
    using Cons.prems(3) v0 by (simp add: peak' Let_def)
  moreover have "sorted rest" "\<forall>w \<in> set rest. v \<le> w"
    using Cons.prems(1) by auto
  ultimately show ?case
    using Cons.IH by blast
qed

text \<open>
  C7. The maximum drawdown that \<open>_calculate_max_drawdown\<close> reports is never
  negative, and it is 0 whenever the equity curve is non-decreasing. A value is reported for
  every curve that has no zero entry, so a non-decreasing curve without a zero entry gives
  0, and so does the empty curve.
\<close>

theorem max_drawdown_non_negative:
  shows "(\<forall>d. calculate_max_drawdown self = Inr d \<longrightarrow>
            0 \<le> d \<and> (sorted (portfolio_value self) \<longrightarrow> d = 0))
       \<and> (0 \<notin> set (portfolio_value self) \<longrightarrow> (\<exists>d. calculate_max_drawdown self = Inr d))
       \<and> (sorted (portfolio_value self) \<and> 0 \<notin> set (portfolio_value self) \<longrightarrow>
            calculate_max_drawdown self = Inr 0)
       \<and> (portfolio_value self = [] \<longrightarrow> calculate_max_drawdown self = Inr 0)"
proof (intro conjI allI impI)
  fix d assume a: "calculate_max_drawdown self = Inr d"
  show "0 \<le> d"
  proof (cases "portfolio_value self")
    case Nil
    with a show ?thesis by (simp add: calculate_max_drawdown_def)
  next
    case (Cons first others)
    with a have "drawdown_loop (first # others) first 0 = Inr d"
      by (simp only: calculate_max_drawdown_def list.case)
    then show ?thesis by (rule drawdown_loop_lower_bound)
  qed
next
  fix d assume a: "calculate_max_drawdown self = Inr d"
    and s: "sorted (portfolio_value self)"
  show "d = 0"
  proof (cases "portfolio_value self")
    case Nil
    with a show ?thesis by (simp add: calculate_max_drawdown_def)
  next
    case (Cons first others)
    with a have "drawdown_loop (first # others) first 0 = Inr d"
      by (simp only: calculate_max_drawdown_def list.case)
    moreover have "sorted (first # others)" "\<forall>v \<in> set (first # others). first \<le> v"
      using s unfolding Cons by auto
    ultimately show ?thesis
      using drawdown_loop_sorted_result by blast
  qed
next
  assume "0 \<notin> set (portfolio_value self)"
  then show "\<exists>d. calculate_max_drawdown self = Inr d"
    by (cases "portfolio_value self")
      (auto simp: calculate_max_drawdown_def intro!: drawdown_loop_returns)
next
  assume a: "sorted (portfolio_value self) \<and> 0 \<notin> set (portfolio_value self)"
  show "calculate_max_drawdown self = Inr 0"
  proof (cases "portfolio_value self")
    case Nil
    then show ?thesis by (simp add: calculate_max_drawdown_def)
  next
    case (Cons first others)
    have "drawdown_loop (first # others) first 0 = Inr 0"
      using a unfolding Cons by (intro drawdown_loop_non_decreasing) auto
    then show ?thesis
      by (simp add: calculate_max_drawdown_def Cons)
  qed
next
  assume "portfolio_value self = []"
  then show "calculate_max_drawdown self = Inr 0"
    by (simp add: calculate_max_drawdown_def)
qed

theorem max_drawdown_non_negative_witness:
  "calculate_max_drawdown (BacktestEngine ''AAPL'' 6 10000\<lparr>portfolio_value := [100, 120, 90, 130]\<rparr>)
     = Inr 25
   \<and> (0::real) \<le> 25
   \<and> sorted [100, 120, 130 :: real] \<and> 0 \<notin> set [100, 120, 130 :: real]
   \<and> calculate_max_drawdown (BacktestEngine ''AAPL'' 6 10000\<lparr>portfolio_value := [100, 120, 130]\<rparr>)
     = Inr 0
   \<and> calculate_max_drawdown (BacktestEngine ''AAPL'' 6 10000) = Inr 0"
proof -
  let ?e = "BacktestEngine ''AAPL'' 6 10000"
  have run: "calculate_max_drawdown (?e\<lparr>portfolio_value := [100, 120, 90, 130]\<rparr>) = Inr 25"
    by (simp add: calculate_max_drawdown_def BacktestEngine_def Let_def)
  have "0 \<le> (25::real)"
    using max_drawdown_non_negative [of "?e\<lparr>portfolio_value := [100, 120, 90, 130]\<rparr>"] run
    by blast
  moreover have "calculate_max_drawdown (?e\<lparr>portfolio_value := [100, 120, 130]\<rparr>) = Inr 0"
    using max_drawdown_non_negative [of "?e\<lparr>portfolio_value := [100, 120, 130]\<rparr>"]
    by (simp add: BacktestEngine_def)
  moreover have "calculate_max_drawdown ?e = Inr 0"
    using max_drawdown_non_negative [of ?e] by (simp add: BacktestEngine_def)
  ultimately show ?thesis using run by simp
qed

section \<open>The metrics\<close>

lemma calculate_metrics_no_trades:
  assumes "trades self = []"
  shows "calculate_metrics self final_cash =
           Inr [(''total_trades'', PyInt 0),
                (''winning_trades'', PyInt 0),
                (''losing_trades'', PyInt 0),
                (''win_rate'', PyFloat 0),
                (''total_return'', PyFloat 0),
                (''total_return_pct'', PyFloat 0),
                (''avg_profit_per_trade'', PyFloat 0),
                (''max_profit'', PyFloat 0),
                (''max_loss'', PyFloat 0),
                (''final_capital'', PyFloat final_cash)]"
  using assms by (simp add: calculate_metrics_def)

lemma calculate_metrics_trades:
  assumes "trades self = t # ts"
    and "calculate_metrics self final_cash = Inr res"
  shows "map_of res ''total_trades'' = Some (PyInt (int (length (trades self))))
       \<and> map_of res ''winning_trades''
            = Some (PyInt (int (length (filter (\<lambda>t. t_profit t > 0) (trades self)))))
       \<and> map_of res ''losing_trades''
            = Some (PyInt (int (length (filter (\<lambda>t. t_profit t \<le> 0) (trades self)))))
       \<and> map_of res ''win_rate''
            = Some (PyFloat (real (length (filter (\<lambda>t. t_profit t > 0) (trades self)))
                              / real (length (trades self)) * 100))
       \<and> map_of res ''final_capital'' = Some (PyFloat final_cash)"
  using assms
  by (auto simp: calculate_metrics_def Let_def split: if_splits sum.splits)

lemma calculate_metrics_returns:
  assumes "trades self = [] \<or> (initial_capital self \<noteq> 0 \<and> 0 \<notin> set (portfolio_value self))"
  shows "\<exists>res. calculate_metrics self final_cash = Inr res"
proof (cases "trades self")
  case Nil
  then show ?thesis by (simp add: calculate_metrics_no_trades)
next
  case (Cons t ts)
  with assms have ic: "initial_capital self \<noteq> 0" and pv: "0 \<notin> set (portfolio_value self)"
    by auto
  obtain d where "calculate_max_drawdown self = Inr d"
  proof (cases "portfolio_value self")
    case Nil
    then show ?thesis using that by (simp add: calculate_max_drawdown_def)
  next
    case (Cons first others)
    with pv have "first \<noteq> 0" "0 \<notin> set (first # others)" by auto
    from drawdown_loop_returns [OF this] show ?thesis
      using that by (auto simp: calculate_max_drawdown_def Cons)
  qed
  then show ?thesis
    using Cons ic by (simp add: calculate_metrics_def Let_def)
qed

lemma count_winning_losing:
  "int (length (filter (\<lambda>t. t_profit t > 0) ts)) + int (length (filter (\<lambda>t. t_profit t \<le> 0) ts))
     = int (length ts)"
proof -
  have "length (filter (\<lambda>t. t_profit t > 0) ts) + length (filter (\<lambda>t. t_profit t \<le> 0) ts)
          = length ts"
    using sum_length_filter_compl [of "\<lambda>t. t_profit t > 0" ts] by (simp add: not_less)
  then have "int (length (filter (\<lambda>t. t_profit t > 0) ts)
               + length (filter (\<lambda>t. t_profit t \<le> 0) ts)) = int (length ts)"
    by (rule arg_cong)
  then show ?thesis by (simp only: of_nat_add)
qed

lemma win_rate_range:
  assumes "ts \<noteq> []"
  shows "0 \<le> real (length (filter P ts)) / real (length ts) * 100"
    and "real (length (filter P ts)) / real (length ts) * 100 \<le> 100"
proof -
  have pos: "0 < real (length ts)"
    using assms by simp
  have le: "real (length (filter P ts)) \<le> real (length ts)"
    by simp
  show "0 \<le> real (length (filter P ts)) / real (length ts) * 100"
    by simp
  show "real (length (filter P ts)) / real (length ts) * 100 \<le> 100"
    using pos le by (simp add: field_simps)
qed

text \<open>
  C8. Every result that \<open>_calculate_metrics\<close> returns, for any trade log, has
  \<open>winning_trades + losing_trades = total_trades\<close>, where winning counts the trades of
  profit above 0, losing those of profit at most 0 and total all of them, and has
  \<open>win_rate\<close> between 0 and 100. A result is returned whenever the log is empty, or
  the initial capital and every entry of the equity curve are not zero.
\<close>

theorem metrics_counts_and_win_rate:
  shows "(trades self = [] \<or> (initial_capital self \<noteq> 0 \<and> 0 \<notin> set (portfolio_value self))
            \<longrightarrow> (\<exists>res. calculate_metrics self final_cash = Inr res))
       \<and> (\<forall>res. calculate_metrics self final_cash = Inr res \<longrightarrow>
            (\<exists>w l n r. map_of res ''winning_trades'' = Some (PyInt w)
               \<and> map_of res ''losing_trades'' = Some (PyInt l)
               \<and> map_of res ''total_trades'' = Some (PyInt n)
               \<and> map_of res ''win_rate'' = Some (PyFloat r)
               \<and> w = int (length (filter (\<lambda>t. t_profit t > 0) (trades self)))
               \<and> l = int (length (filter (\<lambda>t. t_profit t \<le> 0) (trades self)))
               \<and> n = int (length (trades self))
               \<and> w + l = n \<and> 0 \<le> r \<and> r \<le> 100))"
proof (intro conjI allI impI)
  assume "trades self = [] \<or> (initial_capital self \<noteq> 0 \<and> 0 \<notin> set (portfolio_value self))"
  then show "\<exists>res. calculate_metrics self final_cash = Inr res"
    by (rule calculate_metrics_returns)
next
  fix res assume res: "calculate_metrics self final_cash = Inr res"
  show "\<exists>w l n r. map_of res ''winning_trades'' = Some (PyInt w)
               \<and> map_of res ''losing_trades'' = Some (PyInt l)
               \<and> map_of res ''total_trades'' = Some (PyInt n)
               \<and> map_of res ''win_rate'' = Some (PyFloat r)
               \<and> w = int (length (filter (\<lambda>t. t_profit t > 0) (trades self)))
               \<and> l = int (length (filter (\<lambda>t. t_profit t \<le> 0) (trades self)))
               \<and> n = int (length (trades self))
               \<and> w + l = n \<and> 0 \<le> r \<and> r \<le> 100"
  proof (cases "trades self")
    case Nil
    then have "res = [(''total_trades'', PyInt 0),
                (''winning_trades'', PyInt 0),
                (''losing_trades'', PyInt 0),
                (''win_rate'', PyFloat 0),
                (''total_return'', PyFloat 0),
                (''total_return_pct'', PyFloat 0),
                (''avg_profit_per_trade'', PyFloat 0),
                (''max_profit'', PyFloat 0),
                (''max_loss'', PyFloat 0),
                (''final_capital'', PyFloat final_cash)]"
      using res by (simp add: calculate_metrics_no_trades)
    then show ?thesis using Nil by simp
  next
    case (Cons t ts)
    have ne: "trades self \<noteq> []"
      using Cons by simp
    note keys = calculate_metrics_trades [OF Cons res]
    show ?thesis
      using keys count_winning_losing [of "trades self"]
        win_rate_range [OF ne, of "\<lambda>t. t_profit t > 0"]
      by blast
  qed
qed

theorem metrics_counts_and_win_rate_witness:
  "\<exists>res r. calculate_metrics
       \<lparr>symbol = ''AAPL'', period_months = 6, initial_capital = 100,
        trades = [\<lparr>t_entry_date = Some 1, t_exit_date = 2, t_entry_price = 100,
                   t_exit_price = 150, t_shares = 1, t_profit = 50, t_profit_pct = 50,
                   t_position = Some LONG\<rparr>,
                  \<lparr>t_entry_date = Some 3, t_exit_date = 4, t_entry_price = 150,
                   t_exit_price = 130, t_shares = 1, t_profit = - 20, t_profit_pct = - 40 / 3,
                   t_position = Some LONG\<rparr>],
        portfolio_value = [100, 150, 150, 130]\<rparr> 130 = Inr res
     \<and> map_of res ''winning_trades'' = Some (PyInt 1)
     \<and> map_of res ''losing_trades'' = Some (PyInt 1)
     \<and> map_of res ''total_trades'' = Some (PyInt 2)
     \<and> map_of res ''win_rate'' = Some (PyFloat r) \<and> 0 \<le> r \<and> r \<le> 100"
proof -
  let ?e = "\<lparr>symbol = ''AAPL'', period_months = 6, initial_capital = 100,
        trades = [\<lparr>t_entry_date = Some 1, t_exit_date = 2, t_entry_price = 100,
                   t_exit_price = 150, t_shares = 1, t_profit = 50, t_profit_pct = 50,
                   t_position = Some LONG\<rparr>,
                  \<lparr>t_entry_date = Some 3, t_exit_date = 4, t_entry_price = 150,
                   t_exit_price = 130, t_shares = 1, t_profit = - 20, t_profit_pct = - 40 / 3,
                   t_position = Some LONG\<rparr>],
        portfolio_value = [100, 150, 150, 130 :: real]\<rparr>"
  note inst = metrics_counts_and_win_rate [of ?e 130]
  from inst obtain res where res: "calculate_metrics ?e 130 = Inr res"
    by auto
  with inst obtain w l n r where
    "map_of res ''winning_trades'' = Some (PyInt w)"
    "map_of res ''losing_trades'' = Some (PyInt l)"
    "map_of res ''total_trades'' = Some (PyInt n)"
    "map_of res ''win_rate'' = Some (PyFloat r)"
    "w = int (length (filter (\<lambda>t. t_profit t > 0) (trades ?e)))"
    "l = int (length (filter (\<lambda>t. t_profit t \<le> 0) (trades ?e)))"
    "n = int (length (trades ?e))" "0 \<le> r" "r \<le> 100"
    by blast
  then show ?thesis
    using res by (intro exI [of _ res] exI [of _ r]) simp
qed

section \<open>A run without trades\<close>

lemma display_results_no_trades:
  "display_results
     [(''total_trades'', PyInt 0),
      (''winning_trades'', PyInt 0),
      (''losing_trades'', PyInt 0),
      (''win_rate'', PyFloat 0),
      (''total_return'', PyFloat 0),
      (''total_return_pct'', PyFloat 0),
      (''avg_profit_per_trade'', PyFloat 0),
      (''max_profit'', PyFloat 0),
      (''max_loss'', PyFloat 0),
      (''final_capital'', PyFloat final_cash)] = Inl KeyError"
  by (simp add: display_results_def displayed_keys_def getitem_def as_number_def)

text \<open>
  C5. With an empty trade log \<open>_calculate_metrics\<close> returns the nine zero-valued
  metrics and \<open>final_capital\<close>, but no \<open>max_drawdown\<close>: reading that key fails,
  and \<open>_display_results\<close>, which \<open>run_backtest\<close> calls on the result, raises
  KeyError.
\<close>

theorem no_trades_result_lacks_max_drawdown:
  "calculate_metrics (self\<lparr>trades := []\<rparr>) final_cash =
     Inr [(''total_trades'', PyInt 0),
          (''winning_trades'', PyInt 0),
          (''losing_trades'', PyInt 0),
          (''win_rate'', PyFloat 0),
          (''total_return'', PyFloat 0),
          (''total_return_pct'', PyFloat 0),
          (''avg_profit_per_trade'', PyFloat 0),
          (''max_profit'', PyFloat 0),
          (''max_loss'', PyFloat 0),
          (''final_capital'', PyFloat final_cash)]
   \<and> getitem [(''total_trades'', PyInt 0),
          (''winning_trades'', PyInt 0),
          (''losing_trades'', PyInt 0),
          (''win_rate'', PyFloat 0),
          (''total_return'', PyFloat 0),
          (''total_return_pct'', PyFloat 0),
          (''avg_profit_per_trade'', PyFloat 0),
          (''max_profit'', PyFloat 0),
          (''max_loss'', PyFloat 0),
          (''final_capital'', PyFloat final_cash)] ''max_drawdown'' = Inl KeyError
   \<and> display_results [(''total_trades'', PyInt 0),
          (''winning_trades'', PyInt 0),
          (''losing_trades'', PyInt 0),
          (''win_rate'', PyFloat 0),
          (''total_return'', PyFloat 0),
          (''total_return_pct'', PyFloat 0),
          (''avg_profit_per_trade'', PyFloat 0),
          (''max_profit'', PyFloat 0),
          (''max_loss'', PyFloat 0),
          (''final_capital'', PyFloat final_cash)] = Inl KeyError
   \<and> run_backtest (BacktestEngine ''AAPL'' 6 10000) (Some [(0, 100), (1, 101), (2, 103)]) 5 20
       = Inl KeyError"
proof (intro conjI)
  show "run_backtest (BacktestEngine ''AAPL'' 6 10000) (Some [(0, 100), (1, 101), (2, 103)]) 5 20
       = Inl KeyError"
    by code_simp
qed (simp_all add: calculate_metrics_no_trades display_results_no_trades getitem_def)

section \<open>run_backtest\<close>

lemma step_raises: "step previous_row current_row s = Inl TypeError"
  by (simp add: step_def call_detect_ma_crossover_def bind_positional_def
      detect_ma_crossover_params_def)

text \<open>
  On a column without missing cells the rolling mean of a frame column is the moving
  average of \<open>calculate_moving_average\<close>.
\<close>

lemma those_map_Some: "those (map Some ys) = Some ys"
  by (induction ys) simp_all

lemma rolling_mean_column_closes:
  "rolling_mean_column w (map Some xs) = rolling_mean w xs"
proof -
  have "those (take w (drop j (map Some xs))) = Some (take w (drop j xs))" for j
    by (simp only: drop_map take_map those_map_Some)
  then show ?thesis
    by (simp add: rolling_mean_column_def rolling_mean_def)
qed

lemma calculate_moving_average_frame_error:
  "calculate_moving_average_frame df w = Inl e \<Longrightarrow> e = ValueError"
  by (auto simp: calculate_moving_average_frame_def split: if_splits)

lemma assigned_column_error:
  "assigned_column df v = Inl e \<Longrightarrow> e = ValueError"
  by (auto simp: assigned_column_def split: option.splits list.splits if_splits)

lemma with_indicators_error:
  "with_indicators fetched s l = Inl e \<Longrightarrow> e = ValueError"
  by (auto simp: with_indicators_def Let_def split: sum.splits
      dest: calculate_moving_average_frame_error assigned_column_error)

text \<open>
  The second rolling mean is taken over two columns, so its assignment is refused: the
  indicator columns are only ever completed with a \<open>Long_MA\<close> that is missing in every
  row.
\<close>

lemma assigned_column_two_columns:
  "assigned_column df (Some (c1 # c2 # others)) = Inl ValueError"
  by (simp add: assigned_column_def)

lemma with_indicators_long_missing:
  assumes "with_indicators fetched s l = Inr rows"
  shows "\<forall>r \<in> set rows. Long_MA r = None"
proof -
  let ?df = "frame_of fetched"
  obtain short_result short_col where
    sc: "assigned_column ?df short_result = Inr short_col"
    and rest: "(let df1 = ?df\<lparr>df_columns := df_columns ?df @ [(''Short_MA'', short_col)]\<rparr>
         in case calculate_moving_average_frame df1 l of
              Inl e \<Rightarrow> Inl e
            | Inr long_result \<Rightarrow>
           (case assigned_column df1 long_result of
              Inl e \<Rightarrow> Inl e
            | Inr long_col \<Rightarrow>
                Inr (map (\<lambda>(dc, s, l).
                            \<lparr>date = fst dc, Close = snd dc, Short_MA = s, Long_MA = l\<rparr>)
                       (zip fetched (zip short_col long_col))))) = Inr rows"
    using assms by (auto simp: with_indicators_def Let_def split: sum.splits)
  let ?df1 = "?df\<lparr>df_columns := df_columns ?df @ [(''Short_MA'', short_col)]\<rparr>"
  obtain long_result long_col where
    lr: "calculate_moving_average_frame ?df1 l = Inr long_result"
    and lc: "assigned_column ?df1 long_result = Inr long_col"
    and rows: "rows = map (\<lambda>(dc, s, l).
                            \<lparr>date = fst dc, Close = snd dc, Short_MA = s, Long_MA = l\<rparr>)
                       (zip fetched (zip short_col long_col))"
    using rest by (auto simp: Let_def split: sum.splits)
  have "long_result = None"
  proof (cases long_result)
    case None
    then show ?thesis .
  next
    case (Some cols)
    then have "cols = map (\<lambda>(name, c). (name, rolling_mean_column (nat l) c)) (df_columns ?df1)"
      using lr by (auto simp: calculate_moving_average_frame_def split: if_splits)
    then obtain c1 c2 where "cols = [c1, c2]"
      by (simp add: frame_of_def)
    with lc Some show ?thesis
      by (simp add: assigned_column_two_columns)
  qed
  then have "long_col = replicate (length (df_index ?df1)) None"
    using lc by (simp add: assigned_column_def)
  then have "\<forall>x \<in> set long_col. x = None"
    by simp
  then show ?thesis
    unfolding rows by (auto dest!: set_zip_rightD)
qed

lemma dropna_with_indicators:
  assumes "with_indicators fetched s l = Inr rows"
  shows "dropna rows = []"
  using with_indicators_long_missing [OF assms]
  by (simp add: dropna_def filter_empty_conv)

text \<open>
  A first run of a new engine on a fetched frame that is not empty returns no result:
  the indicator columns raise ValueError, or no row is left, no trade is made and the
  display raises KeyError.
\<close>

lemma run_backtest_fresh_engine_raises:
  "run_backtest (BacktestEngine ticker months capital) (Some (r # rs)) short_ma_period
     long_ma_period \<in> {Inl ValueError, Inl KeyError}"
proof (cases "with_indicators (r # rs) short_ma_period long_ma_period")
  case (Inl e)
  then show ?thesis
    by (simp add: run_backtest_def with_indicators_error [OF Inl])
next
  case (Inr df_ma)
  let ?s0 = "engine.extend (BacktestEngine ticker months capital)
               \<lparr>position = None, entry_price = 0, entry_date = None,
                shares = 0, cash = initial_capital (BacktestEngine ticker months capital),
                printed = []\<rparr>"
  have s0: "position ?s0 = None" "trades ?s0 = []"
    by (simp_all add: engine.extend_def BacktestEngine_def)
  have rows: "dropna df_ma = []"
    using Inr by (rule dropna_with_indicators)
  have close: "close_open_position [] ?s0 = Inr ?s0"
    using s0 by (simp add: close_open_position_def)
  note metrics = calculate_metrics_no_trades [OF s0(2), of "cash ?s0"]
  have "run_backtest (BacktestEngine ticker months capital) (Some (r # rs))
          short_ma_period long_ma_period = Inl KeyError"
    by (simp add: run_backtest_def Inr Let_def rows close metrics display_results_no_trades)
  then show ?thesis by simp
qed

text \<open>
  C1. On a fetched series of three days with periods 1 and 2, the second indicator column
  is refused and \<open>run_backtest\<close> raises ValueError at line 57; on a single day no row
  has both averages, the loop has no step, and \<open>run_backtest\<close> raises KeyError when it
  displays the result. No result is returned in either case. The call of the detector at
  line 74, with the four averages of two rows, raises TypeError by itself.
\<close>

theorem run_backtest_raises_on_fetched_series:
  "run_backtest (BacktestEngine ''AAPL'' 6 10000) (Some [(0, 100), (1, 101), (2, 103)]) 1 2
     = Inl ValueError
   \<and> run_backtest (BacktestEngine ''AAPL'' 6 10000) (Some [(0, 100)]) 1 2 = Inl KeyError
   \<and> call_detect_ma_crossover [Some 101, Some (201 / 2), Some 103, Some 102] = Inl TypeError"
proof (intro conjI)
  show "run_backtest (BacktestEngine ''AAPL'' 6 10000) (Some [(0, 100), (1, 101), (2, 103)]) 1 2
     = Inl ValueError"
    by code_simp
  show "run_backtest (BacktestEngine ''AAPL'' 6 10000) (Some [(0, 100)]) 1 2 = Inl KeyError"
    by code_simp
qed (simp add: call_detect_ma_crossover_def bind_positional_def detect_ma_crossover_params_def)

section \<open>Closing the open position\<close>

lemma iloc_last_row: "df \<noteq> [] \<Longrightarrow> iloc df (- 1) = Inr (last df)"
  by (simp add: iloc_last last_conv_nth)

text \<open>
  The closing block by itself, from a LONG position with an entry price that is not 0:
  it closes at the close of the last row with the accounting of the SELL branch, appends
  the one trade that the SELL branch would append at that row, and marks the printed line
  with \<open>[CLOSE]\<close>, which the SELL branch does not.
\<close>

lemma close_open_position_block:
  assumes long: "position s = Some LONG"
      and rows: "df \<noteq> []"
      and entry: "entry_price s \<noteq> 0"
  shows "\<exists>s' s2.
           close_open_position df s = Inr s'
         \<and> cash s' = shares s * Close (last df)
         \<and> trades s' = trades s @
             [\<lparr>t_entry_date = entry_date s, t_exit_date = date (last df),
               t_entry_price = entry_price s, t_exit_price = Close (last df),
               t_shares = shares s,
               t_profit = (Close (last df) - entry_price s) * shares s,
               t_profit_pct = ((Close (last df) - entry_price s) / entry_price s) * 100,
               t_position = Some LONG\<rparr>]
         \<and> position s' = None
         \<and> exit_long (last df) s = Inr s2
         \<and> trades s2 = trades s' \<and> cash s2 = cash s'
         \<and> printed s' = printed s @
             [SellLine ((Close (last df) - entry_price s) * shares s > 0) (date (last df))
                (Close (last df)) ((Close (last df) - entry_price s) * shares s)
                (((Close (last df) - entry_price s) / entry_price s) * 100) True]
         \<and> printed s2 = printed s @
             [SellLine ((Close (last df) - entry_price s) * shares s > 0) (date (last df))
                (Close (last df)) ((Close (last df) - entry_price s) * shares s)
                (((Close (last df) - entry_price s) / entry_price s) * 100) False]"
proof -
  let ?p = "Close (last df)"
  let ?profit = "(?p - entry_price s) * shares s"
  let ?pct = "((?p - entry_price s) / entry_price s) * 100"
  let ?t = "\<lparr>t_entry_date = entry_date s, t_exit_date = date (last df),
             t_entry_price = entry_price s, t_exit_price = ?p, t_shares = shares s,
             t_profit = ?profit, t_profit_pct = ?pct, t_position = Some LONG\<rparr>"
  let ?s' = "s\<lparr>cash := shares s * ?p, trades := trades s @ [?t],
               printed := printed s @ [SellLine (?profit > 0) (date (last df)) ?p ?profit ?pct True],
               position := None\<rparr>"
  let ?s2 = "s\<lparr>cash := shares s * ?p, trades := trades s @ [?t],
               position := None, shares := 0,
               printed := printed s @ [SellLine (?profit > 0) (date (last df)) ?p ?profit ?pct False]\<rparr>"
  have close: "close_open_position df s = Inr ?s'"
    using long entry by (simp add: close_open_position_def iloc_last_row [OF rows] Let_def)
  have sell: "exit_long (last df) s = Inr ?s2"
    using long entry by (simp add: exit_long_def Let_def)
  show ?thesis
    by (intro exI [of _ ?s'] exI [of _ ?s2] conjI close sell) simp_all
qed

text \<open>
  C4. The closes 100, 100, 100, 105, 110 with periods 1 and 2 are a series that ends while
  a LONG position is open: by the detector of \<open>indicators.py\<close> the fourth close gives
  BUY, no earlier close gives a signal, and the last close gives none, so the position
  entered at 105 is never sold. On this series \<open>run_backtest\<close> raises ValueError at
  line 57: it records no trade and reports no \<open>final_capital\<close>.
\<close>

theorem run_backtest_raises_on_series_ending_long:
  "detect_ma_crossover (Some [100, 100]) 1 2 = Inr None
   \<and> detect_ma_crossover (Some [100, 100, 100]) 1 2 = Inr None
   \<and> detect_ma_crossover (Some [100, 100, 100, 105]) 1 2 = Inr (Some BUY)
   \<and> detect_ma_crossover (Some [100, 100, 100, 105, 110]) 1 2 = Inr None
   \<and> run_backtest (BacktestEngine ''AAPL'' 6 10000)
       (Some [(0, 100), (1, 100), (2, 100), (3, 105), (4, 110)]) 1 2 = Inl ValueError"
  by (intro conjI; code_simp)

section \<open>Validation of the configuration\<close>




end
